theory Spec2Isabelle
  imports Main
begin

section \<open>Data model\<close>

text \<open>
  The lifecycle status of a project. The source writes the three string literals
  \<^verbatim>\<open>"stopped"\<close>, \<^verbatim>\<open>"starting"\<close> and \<^verbatim>\<open>"running"\<close> and nothing else;
  all three are non-empty, so Python's truth test \<^verbatim>\<open>if status:\<close> on a stored entry is
  the test that the entry is present.
\<close>

datatype status = Stopped | Starting | Running

text \<open>
  Exceptions of the Docker SDK that the wrappers of \<^verbatim>\<open>utils/docker_client.py\<close> name in
  their \<^verbatim>\<open>except\<close> clauses. In the SDK \<open>ImageNotFound\<close> is a subclass of \<open>NotFound\<close>,
  which is a subclass of \<open>APIError\<close>; \<open>BuildError\<close> and every other exception are only
  caught by \<^verbatim>\<open>except Exception\<close>.
\<close>

datatype exn = ImageNotFound | NotFound | APIError | BuildError | OtherException

definition is_NotFound :: "exn \<Rightarrow> bool" where
  "is_NotFound e = (e = NotFound \<or> e = ImageNotFound)"

definition is_APIError :: "exn \<Rightarrow> bool" where
  "is_APIError e = (e = APIError \<or> is_NotFound e)"

text \<open>A container object of the SDK: its \<^verbatim>\<open>id\<close> and its raw \<^verbatim>\<open>status\<close>.\<close>

record container =
  container_id :: string
  container_status :: string

text \<open>
  The calls that reach the Docker daemon, with their arguments. \<open>Containers_run\<close> carries
  image, name, host port, container port, cpu count, memory limit, memory+swap limit and
  pids limit; \<open>Images_build\<close> carries path and tag; \<open>Container_remove\<close> is always forced.
\<close>

datatype call =
    Images_get "string option"
  | Images_build string "string option"
  | Containers_get string
  | Containers_run "string option" string int int int string string int
  | Container_start container
  | Container_stop container
  | Container_remove container

text \<open>
  The daemon is an environment: what each SDK call answers may depend on every call made
  before it (the first argument), so a container that exists at one call may be gone at
  the next. \<open>Inl\<close> is the exception raised.
\<close>

record daemon =
  images_get :: "call list \<Rightarrow> string option \<Rightarrow> exn + unit"
  images_build :: "call list \<Rightarrow> string \<Rightarrow> string option \<Rightarrow> exn + unit"
  containers_get :: "call list \<Rightarrow> string \<Rightarrow> exn + container"
  containers_run :: "call list \<Rightarrow> string option \<Rightarrow> string \<Rightarrow> int \<Rightarrow> int \<Rightarrow> int \<Rightarrow> string
                       \<Rightarrow> string \<Rightarrow> int \<Rightarrow> exn + container"
  container_start :: "call list \<Rightarrow> container \<Rightarrow> exn + unit"
  container_stop :: "call list \<Rightarrow> container \<Rightarrow> exn + unit"
  container_remove :: "call list \<Rightarrow> container \<Rightarrow> exn + unit"

text \<open>
  What the process is started with: \<open>docker_client\<close> is the module-level handle, \<open>None\<close>
  when \<^verbatim>\<open>docker.from_env()\<close> raised; \<open>os_getcwd\<close> is the working directory;
  \<open>int_of_str\<close> is Python's \<^verbatim>\<open>int\<close> on a string, \<open>None\<close> where it raises.
\<close>

record sys =
  docker_client :: "daemon option"
  os_getcwd :: string
  int_of_str :: "string \<Rightarrow> int option"

text \<open>
  Modelled from the spec: the Status Store \<^verbatim>\<open>utils.redis_client.docker_status\<close>, whose
  module is not part of the sources. The spec gives it the contract
  \<^verbatim>\<open>get(projectID) -> Status | absent\<close>, \<^verbatim>\<open>set(projectID, Status)\<close>,
  \<^verbatim>\<open>clear(projectID)\<close>; it is a map from project identifiers to statuses. The mutable
  world of a handler is this store together with the calls made to the daemon so far.
\<close>

record world =
  DOCKER_STATUS :: "string \<rightharpoonup> status"
  calls :: "call list"

definition invoke :: "call \<Rightarrow> world \<Rightarrow> world" where
  "invoke c w = w\<lparr>calls := calls w @ [c]\<rparr>"

definition set_status :: "string \<Rightarrow> status \<Rightarrow> world \<Rightarrow> world" where
  "set_status p s w = w\<lparr>DOCKER_STATUS := (DOCKER_STATUS w)(p \<mapsto> s)\<rparr>"

definition pop_status :: "string \<Rightarrow> world \<Rightarrow> world" where
  "pop_status p w = w\<lparr>DOCKER_STATUS := (DOCKER_STATUS w)(p := None)\<rparr>"

text \<open>
  A value read from a column of the \<^verbatim>\<open>projects\<close> table. The port columns are declared
  as nullable integers; the handler nevertheless guards \<^verbatim>\<open>int(...)\<close> with
  \<^verbatim>\<open>except Exception\<close>, so a string is admitted here as well.
\<close>

datatype column_value = Null | Int_value int | Str_value string

record project =
  pid :: string
  pname :: string
  docker_name :: string
  docker_image :: "string option"
  port :: column_value
  docker_port :: column_value

text \<open>The keys of \<^verbatim>\<open>current_app.config\<close> that the start handler reads with a default.\<close>

record config =
  WORKING_DIR :: "string option"
  CPU_COUNT :: "int option"
  MEM_LIMIT :: "string option"
  MEMSWAP_LIMIT :: "string option"
  PIDS_LIMIT :: "int option"

text \<open>
  The JSON body and HTTP code a view returns. The message texts of the source are not
  ASCII; each is named by a constructor, in the order they occur in the source.
\<close>

datatype message =
    Project_not_found
  | Ports_not_configured
  | Start_in_progress
  | Start_begun
  | Container_not_found
  | Stop_failed
  | Container_stopped
  | Remove_failed
  | Container_removed

record response =
  success :: bool
  message :: "message option"
  status_field :: "status option"
  http_code :: nat

section \<open>The Docker client wrappers (utils/docker\_client.py)\<close>

text \<open>
  The wrappers are the source's functions of the same name without the leading
  underscore. Each one tests the handle first and otherwise makes its SDK calls inside
  \<^verbatim>\<open>try\<close>; the branches of the \<^verbatim>\<open>except\<close> chain are kept although they return the
  same value, since they differ only in what they log. The loop of
  \<^verbatim>\<open>_docker_build_image\<close> over the build log only writes to the logger; an exception
  in it is caught with those of the build call.
\<close>

definition docker_image_exists :: "daemon option \<Rightarrow> string option \<Rightarrow> world \<Rightarrow> bool \<times> world" where
  "docker_image_exists client image_name w =
     (case client of
        None \<Rightarrow> (False, w)
      | Some d \<Rightarrow>
          (case images_get d (calls w) image_name of
             Inr _ \<Rightarrow> (True, invoke (Images_get image_name) w)
           | Inl e \<Rightarrow>
               if e = ImageNotFound then (False, invoke (Images_get image_name) w)
               else (False, invoke (Images_get image_name) w)))"

definition docker_container_exists :: "daemon option \<Rightarrow> string \<Rightarrow> world \<Rightarrow> bool \<times> world" where
  "docker_container_exists client container_name w =
     (case client of
        None \<Rightarrow> (False, w)
      | Some d \<Rightarrow>
          (case containers_get d (calls w) container_name of
             Inr _ \<Rightarrow> (True, invoke (Containers_get container_name) w)
           | Inl e \<Rightarrow>
               if is_NotFound e then (False, invoke (Containers_get container_name) w)
               else (False, invoke (Containers_get container_name) w)))"

definition docker_container_status :: "daemon option \<Rightarrow> string \<Rightarrow> world \<Rightarrow> string \<times> world" where
  "docker_container_status client container_name w =
     (case client of
        None \<Rightarrow> (''stopped'', w)
      | Some d \<Rightarrow>
          (case containers_get d (calls w) container_name of
             Inr c \<Rightarrow>
               if container_status c = ''running''
               then (''running'', invoke (Containers_get container_name) w)
               else (''stopped'', invoke (Containers_get container_name) w)
           | Inl e \<Rightarrow>
               if is_NotFound e then (''stopped'', invoke (Containers_get container_name) w)
               else (''stopped'', invoke (Containers_get container_name) w)))"

definition docker_build_image ::
  "sys \<Rightarrow> string option \<Rightarrow> string option \<Rightarrow> world \<Rightarrow> bool \<times> world" where
  "docker_build_image S image_name path w =
     (case docker_client S of
        None \<Rightarrow> (False, w)
      | Some d \<Rightarrow>
          (let build_path = (case path of None \<Rightarrow> os_getcwd S
                             | Some p \<Rightarrow> if p = [] then os_getcwd S else p)
           in case images_build d (calls w) build_path image_name of
                Inr _ \<Rightarrow> (True, invoke (Images_build build_path image_name) w)
              | Inl e \<Rightarrow>
                  if e = BuildError then (False, invoke (Images_build build_path image_name) w)
                  else (False, invoke (Images_build build_path image_name) w)))"

definition docker_run_container ::
  "daemon option \<Rightarrow> string option \<Rightarrow> string \<Rightarrow> int \<Rightarrow> int \<Rightarrow> int \<Rightarrow> string \<Rightarrow> string \<Rightarrow> int
     \<Rightarrow> world \<Rightarrow> string \<times> world" where
  "docker_run_container client image_name container_name host_port container_port
       cpu_count mem_limit memswap_limit pids_limit w =
     (case client of
        None \<Rightarrow> ([], w)
      | Some d \<Rightarrow>
          (let c = Containers_run image_name container_name host_port container_port
                     cpu_count mem_limit memswap_limit pids_limit
           in case containers_run d (calls w) image_name container_name host_port
                     container_port cpu_count mem_limit memswap_limit pids_limit of
                Inr container \<Rightarrow> (container_id container, invoke c w)
              | Inl e \<Rightarrow>
                  if is_APIError e then ([], invoke c w) else ([], invoke c w)))"

text \<open>
  Start, stop and remove look the container up and then call a method of the container
  object; an exception of either call ends the \<^verbatim>\<open>try\<close> block.
\<close>

definition docker_start_container :: "daemon option \<Rightarrow> string \<Rightarrow> world \<Rightarrow> bool \<times> world" where
  "docker_start_container client container_name w =
     (case client of
        None \<Rightarrow> (False, w)
      | Some d \<Rightarrow>
          (case containers_get d (calls w) container_name of
             Inl e \<Rightarrow>
               if is_NotFound e then (False, invoke (Containers_get container_name) w)
               else if is_APIError e then (False, invoke (Containers_get container_name) w)
               else (False, invoke (Containers_get container_name) w)
           | Inr container \<Rightarrow>
               (let w1 = invoke (Containers_get container_name) w
                in case container_start d (calls w1) container of
                     Inr _ \<Rightarrow> (True, invoke (Container_start container) w1)
                   | Inl e \<Rightarrow>
                       if is_NotFound e then (False, invoke (Container_start container) w1)
                       else if is_APIError e then (False, invoke (Container_start container) w1)
                       else (False, invoke (Container_start container) w1))))"

definition docker_stop_container :: "daemon option \<Rightarrow> string \<Rightarrow> world \<Rightarrow> bool \<times> world" where
  "docker_stop_container client container_name w =
     (case client of
        None \<Rightarrow> (False, w)
      | Some d \<Rightarrow>
          (case containers_get d (calls w) container_name of
             Inl e \<Rightarrow>
               if is_NotFound e then (False, invoke (Containers_get container_name) w)
               else if is_APIError e then (False, invoke (Containers_get container_name) w)
               else (False, invoke (Containers_get container_name) w)
           | Inr container \<Rightarrow>
               (let w1 = invoke (Containers_get container_name) w
                in case container_stop d (calls w1) container of
                     Inr _ \<Rightarrow> (True, invoke (Container_stop container) w1)
                   | Inl e \<Rightarrow>
                       if is_NotFound e then (False, invoke (Container_stop container) w1)
                       else if is_APIError e then (False, invoke (Container_stop container) w1)
                       else (False, invoke (Container_stop container) w1))))"

definition docker_remove_container :: "daemon option \<Rightarrow> string \<Rightarrow> world \<Rightarrow> bool \<times> world" where
  "docker_remove_container client container_name w =
     (case client of
        None \<Rightarrow> (False, w)
      | Some d \<Rightarrow>
          (case containers_get d (calls w) container_name of
             Inl e \<Rightarrow>
               if is_NotFound e then (False, invoke (Containers_get container_name) w)
               else if is_APIError e then (False, invoke (Containers_get container_name) w)
               else (False, invoke (Containers_get container_name) w)
           | Inr container \<Rightarrow>
               (let w1 = invoke (Containers_get container_name) w
                in case container_remove d (calls w1) container of
                     Inr _ \<Rightarrow> (True, invoke (Container_remove container) w1)
                   | Inl e \<Rightarrow>
                       if is_NotFound e then (False, invoke (Container_remove container) w1)
                       else if is_APIError e then (False, invoke (Container_remove container) w1)
                       else (False, invoke (Container_remove container) w1))))"

section \<open>The views of blueprints/project.py\<close>

text \<open>
  \<^verbatim>\<open>get_project_by_pid\<close> returns the project with that identifier or \<^verbatim>\<open>None\<close> (also
  when the query raises). The table is a map from identifiers to projects. The views are
  modelled from their first statement on: the decorators that check the login and the
  group membership have let the request through.
\<close>

definition get_project_by_pid :: "(string \<rightharpoonup> project) \<Rightarrow> string \<Rightarrow> project option" where
  "get_project_by_pid db p = db p"

definition json :: "bool \<Rightarrow> message option \<Rightarrow> status option \<Rightarrow> nat \<Rightarrow> response" where
  "json ok msg st code =
     \<lparr>success = ok, message = msg, status_field = st, http_code = code\<rparr>"

text \<open>
  Lines 610 to 618 of \<^verbatim>\<open>project_docker_status\<close>, the fallback when the store has no
  entry: the container is looked up and, if it exists, its status is asked for and mapped.
\<close>

definition reconcile :: "sys \<Rightarrow> project \<Rightarrow> world \<Rightarrow> status \<times> world" where
  "reconcile S project w =
     (let container_name = docker_name project;
          (ex, w1) = docker_container_exists (docker_client S) container_name w
      in if ex then
           (let (st, w2) = docker_container_status (docker_client S) container_name w1;
                mapped = (if st = ''running'' then Running else Stopped)
            in (mapped, w2))
         else (Stopped, w1))"

text \<open>\<^verbatim>\<open>project_docker_status\<close>: the stored entry if there is one, else the fallback.\<close>

definition project_docker_status ::
  "sys \<Rightarrow> (string \<rightharpoonup> project) \<Rightarrow> string \<Rightarrow> world \<Rightarrow> response \<times> world" where
  "project_docker_status S db p w =
     (case get_project_by_pid db p of
        None \<Rightarrow> (json False (Some Project_not_found) None 404, w)
      | Some project \<Rightarrow>
          (case DOCKER_STATUS w p of
             Some st \<Rightarrow> (json True None (Some st) 200, w)
           | None \<Rightarrow>
               (case reconcile S project w of
                  (mapped, w') \<Rightarrow> (json True None (Some mapped) 200, w'))))"

text \<open>
  \<^verbatim>\<open>stop_docker\<close>: the container must exist; the store is written only after the stop
  call has succeeded.
\<close>

definition stop_docker ::
  "sys \<Rightarrow> (string \<rightharpoonup> project) \<Rightarrow> string \<Rightarrow> world \<Rightarrow> response \<times> world" where
  "stop_docker S db p w =
     (case get_project_by_pid db p of
        None \<Rightarrow> (json False (Some Project_not_found) None 404, w)
      | Some project \<Rightarrow>
          (let container_name = docker_name project;
               (ex, w1) = docker_container_exists (docker_client S) container_name w
           in if \<not> ex then (json False (Some Container_not_found) None 404, w1)
              else
                (let (stopped, w2) = docker_stop_container (docker_client S) container_name w1
                 in if \<not> stopped then (json False (Some Stop_failed) None 500, w2)
                    else (json True (Some Container_stopped) (Some Stopped) 200,
                          set_status p Stopped w2))))"

text \<open>\<^verbatim>\<open>remove_docker\<close>: as stop, but success pops the entry from the store.\<close>

definition remove_docker ::
  "sys \<Rightarrow> (string \<rightharpoonup> project) \<Rightarrow> string \<Rightarrow> world \<Rightarrow> response \<times> world" where
  "remove_docker S db p w =
     (case get_project_by_pid db p of
        None \<Rightarrow> (json False (Some Project_not_found) None 404, w)
      | Some project \<Rightarrow>
          (let container_name = docker_name project;
               (ex, w1) = docker_container_exists (docker_client S) container_name w
           in if \<not> ex then (json False (Some Container_not_found) None 404, w1)
              else
                (let (removed, w2) = docker_remove_container (docker_client S) container_name w1
                 in if \<not> removed then (json False (Some Remove_failed) None 500, w2)
                    else (json True (Some Container_removed) (Some Stopped) 200,
                          pop_status p w2))))"

subsection \<open>Starting: the request handler\<close>

text \<open>Python's truth test and \<^verbatim>\<open>int(...)\<close> on a column value (\<open>None\<close>: it raises).\<close>

definition py_truthy :: "column_value \<Rightarrow> bool" where
  "py_truthy v = (case v of Null \<Rightarrow> False | Int_value n \<Rightarrow> n \<noteq> 0 | Str_value s \<Rightarrow> s \<noteq> [])"

definition py_int :: "sys \<Rightarrow> column_value \<Rightarrow> int option" where
  "py_int S v = (case v of Null \<Rightarrow> None | Int_value n \<Rightarrow> Some n | Str_value s \<Rightarrow> int_of_str S s)"

text \<open>
  Lines 418 to 423: each port is \<^verbatim>\<open>int(x) if x else None\<close>; an exception of either
  conversion sets both to \<^verbatim>\<open>None\<close>.
\<close>

definition port_or_none :: "sys \<Rightarrow> column_value \<Rightarrow> int option option" where
  "port_or_none S v = (if py_truthy v then map_option Some (py_int S v) else Some None)"

definition parse_ports :: "sys \<Rightarrow> project \<Rightarrow> int option \<times> int option" where
  "parse_ports S project =
     (case port_or_none S (port project) of
        None \<Rightarrow> (None, None)
      | Some host_port \<Rightarrow>
          (case port_or_none S (docker_port project) of
             None \<Rightarrow> (None, None)
           | Some container_port \<Rightarrow> (host_port, container_port)))"

text \<open>
  Line 431, \<^verbatim>\<open>if not host_port or not container_port\<close>: a port is refused when it is
  \<^verbatim>\<open>None\<close> or zero. The result is the pair of ports when neither is refused.
\<close>

definition configured_ports :: "int option \<Rightarrow> int option \<Rightarrow> (int \<times> int) option" where
  "configured_ports host_port container_port =
     (case host_port of
        None \<Rightarrow> None
      | Some h \<Rightarrow>
          if h = 0 then None
          else (case container_port of
                  None \<Rightarrow> None
                | Some c \<Rightarrow> if c = 0 then None else Some (h, c)))"

text \<open>
  What the claims call a port: a column is missing when it is null or holds a string that
  \<^verbatim>\<open>int\<close> does not parse; it is usable when it is truthy and converts to a
  non-zero integer.
\<close>

definition port_missing :: "sys \<Rightarrow> column_value \<Rightarrow> bool" where
  "port_missing S v =
     (case v of Null \<Rightarrow> True | Int_value n \<Rightarrow> False | Str_value s \<Rightarrow> int_of_str S s = None)"

definition port_usable :: "sys \<Rightarrow> column_value \<Rightarrow> bool" where
  "port_usable S v =
     (case v of
        Null \<Rightarrow> False
      | Int_value n \<Rightarrow> n \<noteq> 0
      | Str_value s \<Rightarrow>
          s \<noteq> [] \<and> (case int_of_str S s of None \<Rightarrow> False | Some n \<Rightarrow> n \<noteq> 0))"

text \<open>
  The thread target \<^verbatim>\<open>_build_and_start\<close> is a closure; a task is the variables of the
  handler that it captures.
\<close>

record task =
  t_pid :: string
  t_working_dir :: "string option"
  t_image_name :: "string option"
  t_container_name :: string
  t_host_port :: int
  t_container_port :: int
  t_CPU_COUNT :: int
  t_MEM_LIMIT :: string
  t_MEMSWAP_LIMIT :: string
  t_PIDS_LIMIT :: int
  t_image_exists :: bool
  t_container_exists :: bool

text \<open>
  \<^verbatim>\<open>start_docker\<close> in the order of the source: the project, the ports (line 431), the
  test for a start in progress (line 443), the two existence queries (lines 450 and 453),
  the thread (lines 529 and 530) and the answer. The third component is the task handed to
  the new thread, if one is started; the thread runs it at some later moment.
\<close>

definition start_docker ::
  "sys \<Rightarrow> config \<Rightarrow> (string \<rightharpoonup> project) \<Rightarrow> string \<Rightarrow> world
     \<Rightarrow> response \<times> world \<times> task option" where
  "start_docker S cfg db p w =
     (case get_project_by_pid db p of
        None \<Rightarrow> (json False (Some Project_not_found) None 404, w, None)
      | Some project \<Rightarrow>
          (let working_dir = WORKING_DIR cfg;
               image_name = docker_image project;
               container_name = docker_name project;
               (host_port, container_port) = parse_ports S project;
               cpu = (case CPU_COUNT cfg of None \<Rightarrow> 1 | Some n \<Rightarrow> n);
               mem = (case MEM_LIMIT cfg of None \<Rightarrow> ''1g'' | Some m \<Rightarrow> m);
               memswap = (case MEMSWAP_LIMIT cfg of None \<Rightarrow> ''1.5g'' | Some m \<Rightarrow> m);
               pids = (case PIDS_LIMIT cfg of None \<Rightarrow> 8 | Some n \<Rightarrow> n)
           in case configured_ports host_port container_port of
                None \<Rightarrow> (json False (Some Ports_not_configured) None 400, w, None)
              | Some (hp, cp) \<Rightarrow>
                  if DOCKER_STATUS w p = Some Starting
                  then (json True (Some Start_in_progress) (Some Starting) 202, w, None)
                  else
                    (let (image_exists, w1) = docker_image_exists (docker_client S) image_name w;
                         (container_exists, w2) =
                            docker_container_exists (docker_client S) container_name w1
                     in (json True (Some Start_begun) (Some Starting) 202, w2,
                         Some \<lparr>t_pid = p, t_working_dir = working_dir,
                               t_image_name = image_name, t_container_name = container_name,
                               t_host_port = hp, t_container_port = cp,
                               t_CPU_COUNT = cpu, t_MEM_LIMIT = mem,
                               t_MEMSWAP_LIMIT = memswap, t_PIDS_LIMIT = pids,
                               t_image_exists = image_exists,
                               t_container_exists = container_exists\<rparr>))))"

subsection \<open>Starting: the background task\<close>

text \<open>
  Any statement of the \<^verbatim>\<open>try\<close> block may raise an exception that nothing in the block
  handles. The first argument of \<open>stmt\<close> names the source line of the statement that does
  (\<open>None\<close>: no statement does); the statement raises in place of its effect, so an
  exception that comes after the effect is the exception at the statement that follows.
  \<open>Inl line\<close> is the block left by an exception raised at that line.
\<close>

type_synonym 'a exec = "world \<Rightarrow> (nat + 'a) \<times> world"

definition stmt :: "nat option \<Rightarrow> nat \<Rightarrow> (world \<Rightarrow> 'a \<times> world) \<Rightarrow> 'a exec" where
  "stmt flt line f w =
     (if flt = Some line then (Inl line, w) else (case f w of (r, w') \<Rightarrow> (Inr r, w')))"

definition then_do :: "'a exec \<Rightarrow> ('a \<Rightarrow> 'b exec) \<Rightarrow> 'b exec" where
  "then_do m k w = (case m w of (Inl l, w') \<Rightarrow> (Inl l, w') | (Inr r, w') \<Rightarrow> k r w')"

definition assign :: "string \<Rightarrow> status \<Rightarrow> world \<Rightarrow> unit \<times> world" where
  "assign p s w = ((), set_status p s w)"

definition logger :: "world \<Rightarrow> unit \<times> world" where
  "logger w = ((), w)"

text \<open>Lines 475 to 519: create and run the container, or start the existing one.\<close>

definition create_or_start :: "sys \<Rightarrow> nat option \<Rightarrow> task \<Rightarrow> unit exec" where
  "create_or_start S flt t =
     (if \<not> t_container_exists t then
        then_do (stmt flt 476 logger) (\<lambda>_.
        then_do (stmt flt 479
                   (docker_run_container (docker_client S) (t_image_name t)
                      (t_container_name t) (t_host_port t) (t_container_port t)
                      (t_CPU_COUNT t) (t_MEM_LIMIT t) (t_MEMSWAP_LIMIT t) (t_PIDS_LIMIT t)))
          (\<lambda>container_id.
        if container_id \<noteq> [] then
          then_do (stmt flt 491 (assign (t_pid t) Running)) (\<lambda>_. stmt flt 492 logger)
        else
          then_do (stmt flt 497 (assign (t_pid t) Stopped)) (\<lambda>_. stmt flt 498 logger)))
      else
        then_do (stmt flt 504 logger) (\<lambda>_.
        then_do (stmt flt 507 (docker_start_container (docker_client S) (t_container_name t)))
          (\<lambda>started.
        if started then
          then_do (stmt flt 509 (assign (t_pid t) Running)) (\<lambda>_. stmt flt 510 logger)
        else
          then_do (stmt flt 515 (assign (t_pid t) Stopped)) (\<lambda>_. stmt flt 516 logger))))"

text \<open>
  Lines 458 to 519, the \<^verbatim>\<open>try\<close> block. The \<^verbatim>\<open>return\<close> after a failed build is the
  branch that does not go on to \<open>create_or_start\<close>.
\<close>

definition try_block :: "sys \<Rightarrow> nat option \<Rightarrow> task \<Rightarrow> unit exec" where
  "try_block S flt t =
     then_do (stmt flt 458 (assign (t_pid t) Starting)) (\<lambda>_.
     then_do (stmt flt 459 logger) (\<lambda>_.
     if \<not> t_image_exists t then
       then_do (stmt flt 463 logger) (\<lambda>_.
       then_do (stmt flt 466 (docker_build_image S (t_image_name t) (t_working_dir t)))
         (\<lambda>success.
       if \<not> success then
         then_do (stmt flt 468 (assign (t_pid t) Stopped)) (\<lambda>_. stmt flt 469 logger)
       else create_or_start S flt t))
     else create_or_start S flt t))"

text \<open>Lines 520 to 526, the \<^verbatim>\<open>finally\<close> block.\<close>

definition finally_block :: "string \<Rightarrow> world \<Rightarrow> world" where
  "finally_block p w = (if DOCKER_STATUS w p = Some Starting then set_status p Stopped w else w)"

text \<open>
  \<^verbatim>\<open>_build_and_start\<close>: the \<^verbatim>\<open>try\<close> block and then, however it was left, the
  \<^verbatim>\<open>finally\<close> block. \<open>Inl line\<close> is the thread ended by the exception of that line.
\<close>

definition build_and_start :: "sys \<Rightarrow> nat option \<Rightarrow> task \<Rightarrow> unit exec" where
  "build_and_start S flt t w =
     (case try_block S flt t w of (r, w') \<Rightarrow> (r, finally_block (t_pid t) w'))"

text \<open>The lines of the \<^verbatim>\<open>try\<close> block that hold a statement.\<close>

definition try_lines :: "nat list" where
  "try_lines = [458, 459, 463, 466, 468, 469, 476, 479, 491, 492, 497, 498,
                504, 507, 509, 510, 515, 516]"

section \<open>Concrete environments\<close>

text \<open>A daemon whose every call raises the given exception.\<close>

definition raising :: "exn \<Rightarrow> daemon" where
  "raising e =
     \<lparr>images_get = (\<lambda>h n. Inl e), images_build = (\<lambda>h p n. Inl e),
      containers_get = (\<lambda>h n. Inl e),
      containers_run = (\<lambda>h i n hp cp cpu m ms pl. Inl e),
      container_start = (\<lambda>h c. Inl e), container_stop = (\<lambda>h c. Inl e),
      container_remove = (\<lambda>h c. Inl e)\<rparr>"

text \<open>A daemon with no image and no container, on which build and run succeed.\<close>

definition fresh_daemon :: daemon where
  "fresh_daemon =
     \<lparr>images_get = (\<lambda>h n. Inl ImageNotFound), images_build = (\<lambda>h p n. Inr ()),
      containers_get = (\<lambda>h n. Inl NotFound),
      containers_run = (\<lambda>h i n hp cp cpu m ms pl.
         Inr \<lparr>container_id = ''c0ffee'', container_status = ''created''\<rparr>),
      container_start = (\<lambda>h c. Inl NotFound), container_stop = (\<lambda>h c. Inl NotFound),
      container_remove = (\<lambda>h c. Inl NotFound)\<rparr>"

text \<open>
  A daemon that has the image and a container of every name, in the given raw status, on
  which start, stop and remove succeed and run fails (the name is taken).
\<close>

definition settled_daemon :: "string \<Rightarrow> daemon" where
  "settled_daemon raw =
     \<lparr>images_get = (\<lambda>h n. Inr ()), images_build = (\<lambda>h p n. Inr ()),
      containers_get = (\<lambda>h n. Inr \<lparr>container_id = ''c0ffee'', container_status = raw\<rparr>),
      containers_run = (\<lambda>h i n hp cp cpu m ms pl. Inl APIError),
      container_start = (\<lambda>h c. Inr ()), container_stop = (\<lambda>h c. Inr ()),
      container_remove = (\<lambda>h c. Inr ())\<rparr>"

text \<open>
  A daemon that has a container of every name, in the given raw status, and refuses to
  start, stop or remove it.
\<close>

definition stubborn_daemon :: "string \<Rightarrow> daemon" where
  "stubborn_daemon raw =
     \<lparr>images_get = (\<lambda>h n. Inr ()), images_build = (\<lambda>h p n. Inr ()),
      containers_get = (\<lambda>h n. Inr \<lparr>container_id = ''c0ffee'', container_status = raw\<rparr>),
      containers_run = (\<lambda>h i n hp cp cpu m ms pl. Inl APIError),
      container_start = (\<lambda>h c. Inl APIError), container_stop = (\<lambda>h c. Inl APIError),
      container_remove = (\<lambda>h c. Inl APIError)\<rparr>"


definition sys_with :: "daemon option \<Rightarrow> sys" where
  "sys_with client =
     \<lparr>docker_client = client, os_getcwd = ''/srv/uniweb'',
      int_of_str = (\<lambda>s. if s = ''20001'' then Some 20001
                         else if s = ''8080'' then Some 8080 else None)\<rparr>"

definition demo_config :: config where
  "demo_config =
     \<lparr>WORKING_DIR = Some ''/srv/uniweb'', CPU_COUNT = Some 1, MEM_LIMIT = Some ''1g'',
      MEMSWAP_LIMIT = Some ''1.5g'', PIDS_LIMIT = Some 8\<rparr>"

definition demo_project :: project where
  "demo_project =
     \<lparr>pid = ''p1'', pname = ''demo'', docker_name = ''c1'', docker_image = Some ''img:v1'',
      port = Int_value 20001, docker_port = Int_value 8080\<rparr>"

definition demo_db :: "string \<rightharpoonup> project" where
  "demo_db = [''p1'' \<mapsto> demo_project]"

definition portless_db :: "string \<rightharpoonup> project" where
  "portless_db = [''p1'' \<mapsto> demo_project\<lparr>port := Null\<rparr>]"

definition garbled_db :: "string \<rightharpoonup> project" where
  "garbled_db = [''p1'' \<mapsto> demo_project\<lparr>docker_port := Str_value ''80a''\<rparr>]"

text \<open>The task of a start of the demo project when neither image nor container exists.\<close>

definition demo_task :: task where
  "demo_task =
     \<lparr>t_pid = ''p1'', t_working_dir = Some ''/srv/uniweb'', t_image_name = Some ''img:v1'',
      t_container_name = ''c1'', t_host_port = 20001, t_container_port = 8080,
      t_CPU_COUNT = 1, t_MEM_LIMIT = ''1g'', t_MEMSWAP_LIMIT = ''1.5g'', t_PIDS_LIMIT = 8,
      t_image_exists = False, t_container_exists = False\<rparr>"

definition world0 :: world where
  "world0 = \<lparr>DOCKER_STATUS = Map.empty, calls = []\<rparr>"

section \<open>What the wrappers leave alone\<close>

text \<open>No wrapper touches the Status Store; each only adds to the calls made.\<close>


lemma store_invoke: "DOCKER_STATUS (invoke c w) = DOCKER_STATUS w"
  by (simp add: invoke_def)

lemma calls_invoke: "calls (invoke c w) = calls w @ [c]"
  by (simp add: invoke_def)

lemma store_container_exists:
  "DOCKER_STATUS (snd (docker_container_exists client n w)) = DOCKER_STATUS w"
  by (simp add: docker_container_exists_def store_invoke split: option.split sum.split)

lemma store_image_exists:
  "DOCKER_STATUS (snd (docker_image_exists client n w)) = DOCKER_STATUS w"
  by (simp add: docker_image_exists_def store_invoke split: option.split sum.split)

lemma store_container_status:
  "DOCKER_STATUS (snd (docker_container_status client n w)) = DOCKER_STATUS w"
  by (simp add: docker_container_status_def store_invoke split: option.split sum.split)

lemma store_build_image:
  "DOCKER_STATUS (snd (docker_build_image S n path w)) = DOCKER_STATUS w"
  by (simp add: docker_build_image_def store_invoke Let_def split: option.split sum.split)

lemma store_run_container:
  "DOCKER_STATUS (snd (docker_run_container client i n hp cp cpu m ms pl w)) = DOCKER_STATUS w"
  by (simp add: docker_run_container_def store_invoke Let_def split: option.split sum.split)

lemma store_start_container:
  "DOCKER_STATUS (snd (docker_start_container client n w)) = DOCKER_STATUS w"
  by (simp add: docker_start_container_def store_invoke Let_def split: option.split sum.split)

lemma store_stop_container:
  "DOCKER_STATUS (snd (docker_stop_container client n w)) = DOCKER_STATUS w"
  by (simp add: docker_stop_container_def store_invoke Let_def split: option.split sum.split)

lemma store_remove_container:
  "DOCKER_STATUS (snd (docker_remove_container client n w)) = DOCKER_STATUS w"
  by (simp add: docker_remove_container_def store_invoke Let_def split: option.split sum.split)

section \<open>The status query\<close>

text \<open>
  C5. For every project, the status query answers with the Status Store entry as it is
  when there is one. When there is none it answers \<open>running\<close> exactly when the container
  lookup for the project's container name succeeds and the status lookup that follows it
  returns a container whose raw status is \<^verbatim>\<open>"running"\<close>, and \<open>stopped\<close> in every other
  case: no client handle, the container absent at either lookup, an exception, or any
  other raw status. The query writes nothing to the store.
\<close>

theorem status_query_entry_or_runtime:
  assumes "get_project_by_pid db p = Some project"
  shows "fst (project_docker_status S db p w) =
           json True None
             (Some (case DOCKER_STATUS w p of
                      Some st \<Rightarrow> st
                    | None \<Rightarrow>
                        if (\<exists>d c1 c2. docker_client S = Some d
                              \<and> containers_get d (calls w) (docker_name project) = Inr c1
                              \<and> containers_get d (calls w @ [Containers_get (docker_name project)])
                                    (docker_name project) = Inr c2
                              \<and> container_status c2 = ''running'')
                        then Running else Stopped)) 200
         \<and> DOCKER_STATUS (snd (project_docker_status S db p w)) = DOCKER_STATUS w"
  using assms
  by (auto simp: project_docker_status_def reconcile_def docker_container_exists_def
        docker_container_status_def invoke_def Let_def
        split: option.split sum.split prod.split)

theorem status_query_entry_or_runtime_witness:
  "get_project_by_pid demo_db ''p1'' = Some demo_project
   \<and> fst (project_docker_status (sys_with (Some (settled_daemon ''running''))) demo_db ''p1'' world0)
       = json True None (Some Running) 200
   \<and> fst (project_docker_status (sys_with (Some (settled_daemon ''exited''))) demo_db ''p1'' world0)
       = json True None (Some Stopped) 200
   \<and> fst (project_docker_status (sys_with (Some fresh_daemon)) demo_db ''p1'' world0)
       = json True None (Some Stopped) 200
   \<and> fst (project_docker_status (sys_with (Some fresh_daemon)) demo_db ''p1''
            (set_status ''p1'' Starting world0))
       = json True None (Some Starting) 200"
proof -
  have h: "get_project_by_pid demo_db ''p1'' = Some demo_project"
    by (simp add: get_project_by_pid_def demo_db_def)
  show ?thesis
    using h
      status_query_entry_or_runtime [OF h, of "sys_with (Some (settled_daemon ''running''))" world0]
      status_query_entry_or_runtime [OF h, of "sys_with (Some (settled_daemon ''exited''))" world0]
      status_query_entry_or_runtime [OF h, of "sys_with (Some fresh_daemon)" world0]
      status_query_entry_or_runtime [OF h, of "sys_with (Some fresh_daemon)"
         "set_status ''p1'' Starting world0"]
    by (simp add: sys_with_def settled_daemon_def fresh_daemon_def world0_def
          demo_project_def set_status_def)
qed

section \<open>What the wrappers answer\<close>

text \<open>
  The answer of a wrapper in terms of the daemon: the container exists when the lookup
  returns one; start, stop and remove succeed when the lookup returns a container and the
  method called on it returns.
\<close>


lemma docker_container_exists_iff:
  "fst (docker_container_exists client n w) \<longleftrightarrow>
     (\<exists>d c. client = Some d \<and> containers_get d (calls w) n = Inr c)"
  by (auto simp: docker_container_exists_def split: option.split sum.split)

lemma docker_stop_container_iff:
  "fst (docker_stop_container client n w) \<longleftrightarrow>
     (\<exists>d c. client = Some d \<and> containers_get d (calls w) n = Inr c
            \<and> container_stop d (calls w @ [Containers_get n]) c = Inr ())"
  by (auto simp: docker_stop_container_def invoke_def Let_def split: option.split sum.split)

lemma docker_remove_container_iff:
  "fst (docker_remove_container client n w) \<longleftrightarrow>
     (\<exists>d c. client = Some d \<and> containers_get d (calls w) n = Inr c
            \<and> container_remove d (calls w @ [Containers_get n]) c = Inr ())"
  by (auto simp: docker_remove_container_def invoke_def Let_def split: option.split sum.split)

lemma docker_start_container_iff:
  "fst (docker_start_container client n w) \<longleftrightarrow>
     (\<exists>d c. client = Some d \<and> containers_get d (calls w) n = Inr c
            \<and> container_start d (calls w @ [Containers_get n]) c = Inr ())"
  by (auto simp: docker_start_container_def invoke_def Let_def split: option.split sum.split)

section \<open>Stopping\<close>

text \<open>
  C6. For every project, stop on a project whose container does not exist (the existence
  query answers no) returns the not-found error and leaves the Status Store as it was.
  When the container exists, stop writes \<open>stopped\<close> for the project exactly when the
  runtime stop call succeeds; when that call fails it reports an error and the store is
  as it was.
\<close>

theorem stop_requires_container:
  assumes "get_project_by_pid db p = Some project"
  shows "(fst (stop_docker S db p w), DOCKER_STATUS (snd (stop_docker S db p w))) =
           (let n = docker_name project;
                (ex, w1) = docker_container_exists (docker_client S) n w;
                stopped = fst (docker_stop_container (docker_client S) n w1)
            in if \<not> ex then (json False (Some Container_not_found) None 404, DOCKER_STATUS w)
               else if stopped
               then (json True (Some Container_stopped) (Some Stopped) 200,
                     (DOCKER_STATUS w)(p \<mapsto> Stopped))
               else (json False (Some Stop_failed) None 500, DOCKER_STATUS w))"
proof -
  obtain ex w1 where e: "docker_container_exists (docker_client S) (docker_name project) w = (ex, w1)"
    by (cases "docker_container_exists (docker_client S) (docker_name project) w")
  obtain st w2 where s: "docker_stop_container (docker_client S) (docker_name project) w1 = (st, w2)"
    by (cases "docker_stop_container (docker_client S) (docker_name project) w1")
  have 1: "DOCKER_STATUS w1 = DOCKER_STATUS w"
    using store_container_exists [of "docker_client S" "docker_name project" w] e by simp
  have 2: "DOCKER_STATUS w2 = DOCKER_STATUS w1"
    using store_stop_container [of "docker_client S" "docker_name project" w1] s by simp
  show ?thesis
    using assms e s 1 2 by (simp add: stop_docker_def Let_def set_status_def)
qed

theorem stop_requires_container_witness:
  "get_project_by_pid demo_db ''p1'' = Some demo_project
   \<and> (fst (stop_docker (sys_with (Some fresh_daemon)) demo_db ''p1'' (set_status ''p1'' Running world0)),
      DOCKER_STATUS (snd (stop_docker (sys_with (Some fresh_daemon)) demo_db ''p1''
                            (set_status ''p1'' Running world0))) ''p1'')
       = (json False (Some Container_not_found) None 404, Some Running)
   \<and> (fst (stop_docker (sys_with (Some (settled_daemon ''running''))) demo_db ''p1''
              (set_status ''p1'' Running world0)),
      DOCKER_STATUS (snd (stop_docker (sys_with (Some (settled_daemon ''running''))) demo_db ''p1''
                            (set_status ''p1'' Running world0))) ''p1'')
       = (json True (Some Container_stopped) (Some Stopped) 200, Some Stopped)
   \<and> (fst (stop_docker (sys_with (Some (stubborn_daemon ''running''))) demo_db ''p1''
              (set_status ''p1'' Running world0)),
      DOCKER_STATUS (snd (stop_docker (sys_with (Some (stubborn_daemon ''running''))) demo_db ''p1''
                            (set_status ''p1'' Running world0))) ''p1'')
       = (json False (Some Stop_failed) None 500, Some Running)"
proof -
  have h: "get_project_by_pid demo_db ''p1'' = Some demo_project"
    by (simp add: get_project_by_pid_def demo_db_def)
  have n: "docker_name demo_project = ''c1''"
    by (simp add: demo_project_def)
  note t = stop_requires_container [OF h, where w = "set_status ''p1'' Running world0"]
  have a: "(fst (stop_docker (sys_with (Some fresh_daemon)) demo_db ''p1'' (set_status ''p1'' Running world0)),
      DOCKER_STATUS (snd (stop_docker (sys_with (Some fresh_daemon)) demo_db ''p1''
                            (set_status ''p1'' Running world0))))
       = (json False (Some Container_not_found) None 404, [''p1'' \<mapsto> Running])"
    using t [of "sys_with (Some fresh_daemon)"]
    by (simp add: n sys_with_def fresh_daemon_def world0_def set_status_def
          docker_container_exists_def is_NotFound_def invoke_def)
  have b: "(fst (stop_docker (sys_with (Some (settled_daemon ''running''))) demo_db ''p1''
              (set_status ''p1'' Running world0)),
      DOCKER_STATUS (snd (stop_docker (sys_with (Some (settled_daemon ''running''))) demo_db ''p1''
                            (set_status ''p1'' Running world0))))
       = (json True (Some Container_stopped) (Some Stopped) 200, [''p1'' \<mapsto> Stopped])"
    using t [of "sys_with (Some (settled_daemon ''running''))"]
    by (simp add: n sys_with_def settled_daemon_def world0_def set_status_def
          docker_container_exists_def docker_stop_container_def invoke_def)
  have c: "(fst (stop_docker (sys_with (Some (stubborn_daemon ''running''))) demo_db ''p1''
              (set_status ''p1'' Running world0)),
      DOCKER_STATUS (snd (stop_docker (sys_with (Some (stubborn_daemon ''running''))) demo_db ''p1''
                            (set_status ''p1'' Running world0))))
       = (json False (Some Stop_failed) None 500, [''p1'' \<mapsto> Running])"
    using t [of "sys_with (Some (stubborn_daemon ''running''))"]
    by (simp add: n sys_with_def stubborn_daemon_def world0_def set_status_def
          docker_container_exists_def docker_stop_container_def invoke_def
          is_NotFound_def is_APIError_def)
  from a b c h show ?thesis by simp
qed

section \<open>Removing\<close>

text \<open>
  C7. For every project, remove on a project whose container does not exist returns the
  not-found error and changes no state. When the container exists and the forced removal
  succeeds, the project's key is removed from the Status Store (absent, not \<open>stopped\<close>),
  and a status query that follows is answered by the fallback that asks the runtime. When
  the removal fails, an error is reported and the entry stays.
\<close>

theorem remove_clears_entry:
  assumes "get_project_by_pid db p = Some project"
  shows "(fst (remove_docker S db p w), DOCKER_STATUS (snd (remove_docker S db p w))) =
           (let n = docker_name project;
                (ex, w1) = docker_container_exists (docker_client S) n w;
                removed = fst (docker_remove_container (docker_client S) n w1)
            in if \<not> ex then (json False (Some Container_not_found) None 404, DOCKER_STATUS w)
               else if removed
               then (json True (Some Container_removed) (Some Stopped) 200,
                     (DOCKER_STATUS w)(p := None))
               else (json False (Some Remove_failed) None 500, DOCKER_STATUS w))
         \<and> (fst (remove_docker S db p w) = json True (Some Container_removed) (Some Stopped) 200
              \<longrightarrow> project_docker_status S db p (snd (remove_docker S db p w)) =
                    (json True None (Some (fst (reconcile S project (snd (remove_docker S db p w))))) 200,
                     snd (reconcile S project (snd (remove_docker S db p w)))))"
proof -
  obtain ex w1 where e: "docker_container_exists (docker_client S) (docker_name project) w = (ex, w1)"
    by (cases "docker_container_exists (docker_client S) (docker_name project) w")
  obtain st w2 where s: "docker_remove_container (docker_client S) (docker_name project) w1 = (st, w2)"
    by (cases "docker_remove_container (docker_client S) (docker_name project) w1")
  have 1: "DOCKER_STATUS w1 = DOCKER_STATUS w"
    using store_container_exists [of "docker_client S" "docker_name project" w] e by simp
  have 2: "DOCKER_STATUS w2 = DOCKER_STATUS w1"
    using store_remove_container [of "docker_client S" "docker_name project" w1] s by simp
  have first: "(fst (remove_docker S db p w), DOCKER_STATUS (snd (remove_docker S db p w))) =
           (let n = docker_name project;
                (ex, w1) = docker_container_exists (docker_client S) n w;
                removed = fst (docker_remove_container (docker_client S) n w1)
            in if \<not> ex then (json False (Some Container_not_found) None 404, DOCKER_STATUS w)
               else if removed
               then (json True (Some Container_removed) (Some Stopped) 200,
                     (DOCKER_STATUS w)(p := None))
               else (json False (Some Remove_failed) None 500, DOCKER_STATUS w))"
    using assms e s 1 2 by (simp add: remove_docker_def Let_def pop_status_def)
  have second: "project_docker_status S db p (snd (remove_docker S db p w)) =
                    (json True None (Some (fst (reconcile S project (snd (remove_docker S db p w))))) 200,
                     snd (reconcile S project (snd (remove_docker S db p w))))"
    if ok: "fst (remove_docker S db p w) = json True (Some Container_removed) (Some Stopped) 200"
  proof -
    from ok first have "DOCKER_STATUS (snd (remove_docker S db p w)) p = None"
      using e by (auto simp: Let_def json_def split: if_splits)
    then show ?thesis
      using assms by (simp add: project_docker_status_def split: prod.split)
  qed
  from first second show ?thesis by blast
qed

theorem remove_clears_entry_witness:
  "get_project_by_pid demo_db ''p1'' = Some demo_project
   \<and> (fst (remove_docker (sys_with (Some (settled_daemon ''exited''))) demo_db ''p1''
              (set_status ''p1'' Running world0)),
      DOCKER_STATUS (snd (remove_docker (sys_with (Some (settled_daemon ''exited''))) demo_db ''p1''
                            (set_status ''p1'' Running world0))) ''p1'')
       = (json True (Some Container_removed) (Some Stopped) 200, None)
   \<and> fst (project_docker_status (sys_with (Some (settled_daemon ''exited''))) demo_db ''p1''
            (snd (remove_docker (sys_with (Some (settled_daemon ''exited''))) demo_db ''p1''
                    (set_status ''p1'' Running world0))))
       = json True None
           (Some (fst (reconcile (sys_with (Some (settled_daemon ''exited''))) demo_project
                    (snd (remove_docker (sys_with (Some (settled_daemon ''exited''))) demo_db ''p1''
                            (set_status ''p1'' Running world0)))))) 200
   \<and> (fst (remove_docker (sys_with (Some fresh_daemon)) demo_db ''p1''
              (set_status ''p1'' Running world0)),
      DOCKER_STATUS (snd (remove_docker (sys_with (Some fresh_daemon)) demo_db ''p1''
                            (set_status ''p1'' Running world0))) ''p1'')
       = (json False (Some Container_not_found) None 404, Some Running)
   \<and> (fst (remove_docker (sys_with (Some (stubborn_daemon ''exited''))) demo_db ''p1''
              (set_status ''p1'' Running world0)),
      DOCKER_STATUS (snd (remove_docker (sys_with (Some (stubborn_daemon ''exited''))) demo_db ''p1''
                            (set_status ''p1'' Running world0))) ''p1'')
       = (json False (Some Remove_failed) None 500, Some Running)"
proof -
  have h: "get_project_by_pid demo_db ''p1'' = Some demo_project"
    by (simp add: get_project_by_pid_def demo_db_def)
  have n: "docker_name demo_project = ''c1''"
    by (simp add: demo_project_def)
  note t = remove_clears_entry [OF h, where w = "set_status ''p1'' Running world0"]
  have a: "(fst (remove_docker (sys_with (Some (settled_daemon ''exited''))) demo_db ''p1''
              (set_status ''p1'' Running world0)),
      DOCKER_STATUS (snd (remove_docker (sys_with (Some (settled_daemon ''exited''))) demo_db ''p1''
                            (set_status ''p1'' Running world0))))
       = (json True (Some Container_removed) (Some Stopped) 200, Map.empty)"
    using t [of "sys_with (Some (settled_daemon ''exited''))", THEN conjunct1]
    by (simp add: n sys_with_def settled_daemon_def world0_def set_status_def
          docker_container_exists_def docker_remove_container_def invoke_def)
  then have a1: "fst (remove_docker (sys_with (Some (settled_daemon ''exited''))) demo_db ''p1''
              (set_status ''p1'' Running world0))
       = json True (Some Container_removed) (Some Stopped) 200"
    by simp
  have a2: "fst (project_docker_status (sys_with (Some (settled_daemon ''exited''))) demo_db ''p1''
            (snd (remove_docker (sys_with (Some (settled_daemon ''exited''))) demo_db ''p1''
                    (set_status ''p1'' Running world0))))
       = json True None
           (Some (fst (reconcile (sys_with (Some (settled_daemon ''exited''))) demo_project
                    (snd (remove_docker (sys_with (Some (settled_daemon ''exited''))) demo_db ''p1''
                            (set_status ''p1'' Running world0)))))) 200"
    using t [of "sys_with (Some (settled_daemon ''exited''))", THEN conjunct2] a1 by simp
  have b: "(fst (remove_docker (sys_with (Some fresh_daemon)) demo_db ''p1''
              (set_status ''p1'' Running world0)),
      DOCKER_STATUS (snd (remove_docker (sys_with (Some fresh_daemon)) demo_db ''p1''
                            (set_status ''p1'' Running world0))))
       = (json False (Some Container_not_found) None 404, [''p1'' \<mapsto> Running])"
    using t [of "sys_with (Some fresh_daemon)", THEN conjunct1]
    by (simp add: n sys_with_def fresh_daemon_def world0_def set_status_def
          docker_container_exists_def is_NotFound_def invoke_def)
  have c: "(fst (remove_docker (sys_with (Some (stubborn_daemon ''exited''))) demo_db ''p1''
              (set_status ''p1'' Running world0)),
      DOCKER_STATUS (snd (remove_docker (sys_with (Some (stubborn_daemon ''exited''))) demo_db ''p1''
                            (set_status ''p1'' Running world0))))
       = (json False (Some Remove_failed) None 500, [''p1'' \<mapsto> Running])"
    using t [of "sys_with (Some (stubborn_daemon ''exited''))", THEN conjunct1]
    by (simp add: n sys_with_def stubborn_daemon_def world0_def set_status_def
          docker_container_exists_def docker_remove_container_def invoke_def
          is_NotFound_def is_APIError_def)
  from a a2 b c h show ?thesis by simp
qed

section \<open>Starting: the request handler\<close>

text \<open>
  The port check passes exactly when both columns are usable; a missing column is not
  usable. A project that fails the check is refused before anything else is looked at; a
  project that passes it and is already starting is answered at once.
\<close>

lemma configured_ports_usable:
  "case_prod configured_ports (parse_ports S pr) \<noteq> None \<longleftrightarrow>
     port_usable S (port pr) \<and> port_usable S (docker_port pr)"
  by (auto simp: configured_ports_def parse_ports_def port_or_none_def port_usable_def
        py_truthy_def py_int_def split: option.splits column_value.splits if_splits)

lemma port_missing_not_usable: "port_missing S v \<Longrightarrow> \<not> port_usable S v"
  by (auto simp: port_missing_def port_usable_def split: column_value.splits)

lemma start_docker_refuses:
  assumes "get_project_by_pid db p = Some project"
    and "\<not> (port_usable S (port project) \<and> port_usable S (docker_port project))"
  shows "start_docker S cfg db p w = (json False (Some Ports_not_configured) None 400, w, None)"
proof -
  from assms(2) have "case_prod configured_ports (parse_ports S project) = None"
    using configured_ports_usable [of S project] by blast
  then show ?thesis
    using assms(1) by (simp add: start_docker_def Let_def split: prod.splits)
qed

lemma start_docker_in_progress:
  assumes "get_project_by_pid db p = Some project"
    and "port_usable S (port project)" and "port_usable S (docker_port project)"
    and "DOCKER_STATUS w p = Some Starting"
  shows "start_docker S cfg db p w =
           (json True (Some Start_in_progress) (Some Starting) 202, w, None)"
proof -
  from assms(2,3) have "case_prod configured_ports (parse_ports S project) \<noteq> None"
    using configured_ports_usable [of S project] by blast
  then show ?thesis
    using assms(1,4) by (auto simp: start_docker_def Let_def split: prod.splits)
qed

text \<open>
  C8. For every project that misses its host port or its container port (the column is
  null or does not parse), start fails at once with the configuration error, leaves the
  Status Store and the runtime untouched and starts no background task.
\<close>

theorem missing_port_is_refused:
  assumes "get_project_by_pid db p = Some project"
    and "port_missing S (port project) \<or> port_missing S (docker_port project)"
  shows "start_docker S cfg db p w = (json False (Some Ports_not_configured) None 400, w, None)"
  using assms start_docker_refuses [of db p project S cfg w] port_missing_not_usable by blast

theorem missing_port_is_refused_witness:
  "get_project_by_pid portless_db ''p1'' = Some (demo_project\<lparr>port := Null\<rparr>)
   \<and> port_missing (sys_with (Some fresh_daemon)) (port (demo_project\<lparr>port := Null\<rparr>))
   \<and> start_docker (sys_with (Some fresh_daemon)) demo_config portless_db ''p1'' world0
       = (json False (Some Ports_not_configured) None 400, world0, None)
   \<and> get_project_by_pid garbled_db ''p1'' = Some (demo_project\<lparr>docker_port := Str_value ''80a''\<rparr>)
   \<and> port_missing (sys_with (Some fresh_daemon))
        (docker_port (demo_project\<lparr>docker_port := Str_value ''80a''\<rparr>))
   \<and> start_docker (sys_with (Some fresh_daemon)) demo_config garbled_db ''p1'' world0
       = (json False (Some Ports_not_configured) None 400, world0, None)"
proof -
  have h1: "get_project_by_pid portless_db ''p1'' = Some (demo_project\<lparr>port := Null\<rparr>)"
    by (simp add: get_project_by_pid_def portless_db_def)
  have m1: "port_missing (sys_with (Some fresh_daemon)) (port (demo_project\<lparr>port := Null\<rparr>))"
    by (simp add: port_missing_def)
  have h2: "get_project_by_pid garbled_db ''p1''
              = Some (demo_project\<lparr>docker_port := Str_value ''80a''\<rparr>)"
    by (simp add: get_project_by_pid_def garbled_db_def)
  have m2: "port_missing (sys_with (Some fresh_daemon))
              (docker_port (demo_project\<lparr>docker_port := Str_value ''80a''\<rparr>))"
    by (simp add: port_missing_def sys_with_def)
  show ?thesis
    using h1 m1 h2 m2
      missing_port_is_refused [OF h1 disjI1 [OF m1], of demo_config world0]
      missing_port_is_refused [OF h2 disjI2 [OF m2], of demo_config world0]
    by simp
qed

text \<open>
  C2, as amended. For every project whose Status Store entry is \<open>starting\<close> when a start
  request arrives, start changes no state, makes no call to the runtime and starts no
  background task; it answers \<open>starting\<close> when both ports are usable, and the
  configuration error when one is not, since the port check comes first. The claim as it
  was stated, that a project with a missing port is answered \<open>starting\<close> as well, fails
  on the project of the counterexample, whose host port is null.
\<close>

theorem start_in_progress_after_port_check:
  assumes "get_project_by_pid db p = Some project"
    and "DOCKER_STATUS w p = Some Starting"
  shows "start_docker S cfg db p w =
           (if port_usable S (port project) \<and> port_usable S (docker_port project)
            then json True (Some Start_in_progress) (Some Starting) 202
            else json False (Some Ports_not_configured) None 400, w, None)"
proof (cases "port_usable S (port project) \<and> port_usable S (docker_port project)")
  case True
  then show ?thesis
    using assms start_docker_in_progress [of db p project S w cfg] by simp
next
  case False
  then show ?thesis
    using assms(1) start_docker_refuses [of db p project S cfg w] by auto
qed

theorem start_in_progress_after_port_check_witness:
  "get_project_by_pid demo_db ''p1'' = Some demo_project
   \<and> DOCKER_STATUS (set_status ''p1'' Starting world0) ''p1'' = Some Starting
   \<and> start_docker (sys_with (Some fresh_daemon)) demo_config demo_db ''p1''
         (set_status ''p1'' Starting world0)
       = (json True (Some Start_in_progress) (Some Starting) 202,
          set_status ''p1'' Starting world0, None)"
proof -
  have h: "get_project_by_pid demo_db ''p1'' = Some demo_project"
    by (simp add: get_project_by_pid_def demo_db_def)
  have s: "DOCKER_STATUS (set_status ''p1'' Starting world0) ''p1'' = Some Starting"
    by (simp add: set_status_def)
  have u: "port_usable (sys_with (Some fresh_daemon)) (port demo_project)
           \<and> port_usable (sys_with (Some fresh_daemon)) (docker_port demo_project)"
    by (simp add: port_usable_def demo_project_def)
  show ?thesis
    using h s u start_in_progress_after_port_check [OF h s, of "sys_with (Some fresh_daemon)" demo_config]
    by simp
qed

theorem start_in_progress_after_port_check_counterexample:
  "get_project_by_pid portless_db ''p1'' = Some (demo_project\<lparr>port := Null\<rparr>)
   \<and> DOCKER_STATUS (set_status ''p1'' Starting world0) ''p1'' = Some Starting
   \<and> start_docker (sys_with (Some fresh_daemon)) demo_config portless_db ''p1''
         (set_status ''p1'' Starting world0)
       = (json False (Some Ports_not_configured) None 400, set_status ''p1'' Starting world0, None)
   \<and> status_field (fst (start_docker (sys_with (Some fresh_daemon)) demo_config portless_db ''p1''
         (set_status ''p1'' Starting world0))) \<noteq> Some Starting"
  by (simp add: get_project_by_pid_def portless_db_def set_status_def start_docker_def
        parse_ports_def port_or_none_def py_truthy_def configured_ports_def json_def Let_def
        demo_project_def py_int_def)

section \<open>Starting: the background task\<close>

text \<open>
  C1. However the \<^verbatim>\<open>try\<close> block of the background task is left, by a return after a
  failed build, a failed run or a failed start of the existing container, by running to
  its end, or by an exception raised at any of its statements, the task ends with the
  \<^verbatim>\<open>finally\<close> block: an entry that still holds \<open>starting\<close> is set to \<open>stopped\<close>, any
  other is kept, and so the project's entry after the task is never \<open>starting\<close>.
\<close>

theorem no_orphaned_starting:
  "DOCKER_STATUS (snd (build_and_start S flt t w)) (t_pid t) \<noteq> Some Starting
   \<and> DOCKER_STATUS (snd (build_and_start S flt t w)) (t_pid t) =
       (if DOCKER_STATUS (snd (try_block S flt t w)) (t_pid t) = Some Starting then Some Stopped
        else DOCKER_STATUS (snd (try_block S flt t w)) (t_pid t))
   \<and> fst (build_and_start S flt t w) = fst (try_block S flt t w)"
  by (simp add: build_and_start_def finally_block_def set_status_def split: prod.split)


theorem no_orphaned_starting_witness:
  "fst (build_and_start (sys_with (Some fresh_daemon)) (Some 479) demo_task world0) = Inl 479
   \<and> DOCKER_STATUS (snd (try_block (sys_with (Some fresh_daemon)) (Some 479) demo_task world0)) ''p1''
       = Some Starting
   \<and> DOCKER_STATUS (snd (build_and_start (sys_with (Some fresh_daemon)) (Some 479) demo_task world0))
        ''p1'' = Some Stopped"
proof -
  have b: "try_block (sys_with (Some fresh_daemon)) (Some 479) demo_task world0
             = (Inl 479, \<lparr>DOCKER_STATUS = [''p1'' \<mapsto> Starting],
                          calls = [Images_build ''/srv/uniweb'' (Some ''img:v1'')]\<rparr>)"
    by (simp add: try_block_def create_or_start_def then_do_def stmt_def assign_def logger_def
          set_status_def docker_build_image_def invoke_def demo_task_def sys_with_def
          fresh_daemon_def world0_def)
  show ?thesis
    using no_orphaned_starting [of "sys_with (Some fresh_daemon)" "Some 479" demo_task world0] b
    by (simp add: demo_task_def)
qed

text \<open>
  The lines of \<open>try_lines\<close> are all the places where the block can be left by an
  exception: an exception assigned to any other line changes nothing.
\<close>

lemma exception_outside_try_block:
  assumes "\<forall>line \<in> set try_lines. flt \<noteq> Some line"
  shows "build_and_start S flt t w = build_and_start S None t w"
proof -
  from assms have away: "flt \<noteq> Some 458" "flt \<noteq> Some 459" "flt \<noteq> Some 463" "flt \<noteq> Some 466"
    "flt \<noteq> Some 468" "flt \<noteq> Some 469" "flt \<noteq> Some 476" "flt \<noteq> Some 479"
    "flt \<noteq> Some 491" "flt \<noteq> Some 492" "flt \<noteq> Some 497" "flt \<noteq> Some 498"
    "flt \<noteq> Some 504" "flt \<noteq> Some 507" "flt \<noteq> Some 509" "flt \<noteq> Some 510"
    "flt \<noteq> Some 515" "flt \<noteq> Some 516"
    by (simp_all add: try_lines_def)
  have "try_block S flt t = try_block S None t"
    unfolding try_block_def create_or_start_def stmt_def
    using away by (simp cong: if_cong)
  then show ?thesis
    by (simp add: build_and_start_def)
qed

section \<open>Without a client\<close>

text \<open>With no client handle a wrapper returns its failure value and calls nothing.\<close>

lemma no_client_wrappers:
  "docker_image_exists None i w = (False, w)"
  "docker_container_exists None n w = (False, w)"
  "docker_container_status None n w = (''stopped'', w)"
  "docker_run_container None i n hp cp cpu m ms pl w = ([], w)"
  "docker_start_container None n w = (False, w)"
  "docker_stop_container None n w = (False, w)"
  "docker_remove_container None n w = (False, w)"
  by (simp_all add: docker_image_exists_def docker_container_exists_def
        docker_container_status_def docker_run_container_def docker_start_container_def
        docker_stop_container_def docker_remove_container_def)

lemma no_client_build:
  "docker_client S = None \<Longrightarrow> docker_build_image S i path w = (False, w)"
  by (simp add: docker_build_image_def)

lemma set_status_twice: "set_status p s (set_status p s' w) = set_status p s w"
  by (simp add: set_status_def)

lemma no_client_task:
  assumes "docker_client S = None"
  shows "build_and_start S None t w = (Inr (), set_status (t_pid t) Stopped w)"
proof -
  have c: "create_or_start S None t (set_status (t_pid t) Starting w)
             = (Inr (), set_status (t_pid t) Stopped w)"
    using assms
    by (simp add: create_or_start_def then_do_def stmt_def assign_def logger_def
          no_client_wrappers set_status_twice)
  have "try_block S None t w = (Inr (), set_status (t_pid t) Stopped w)"
    using assms c
    by (simp add: try_block_def then_do_def stmt_def assign_def logger_def
          no_client_build set_status_twice)
  then show ?thesis
    by (simp add: build_and_start_def finally_block_def set_status_def)
qed

text \<open>
  C10. If the Docker client failed to initialise, so that the handle is null, every
  wrapper returns its failure or default value and raises nothing: the existence query
  answers no for every container name, so stop and remove report not-found whatever the
  state of the container is (the daemon is not asked at all), the status query answers
  \<open>stopped\<close> for every project without a Status Store entry (and the entry otherwise),
  and every start background task that runs without an exception ends with the
  project's entry set to \<open>stopped\<close>.
\<close>

theorem no_client_every_operation_fails:
  assumes "docker_client S = None" and "get_project_by_pid db p = Some project"
  shows "docker_image_exists (docker_client S) i w = (False, w)
       \<and> docker_container_exists (docker_client S) n w = (False, w)
       \<and> docker_container_status (docker_client S) n w = (''stopped'', w)
       \<and> docker_build_image S i path w = (False, w)
       \<and> docker_run_container (docker_client S) i n hp cp cpu m ms pl w = ([], w)
       \<and> docker_start_container (docker_client S) n w = (False, w)
       \<and> docker_stop_container (docker_client S) n w = (False, w)
       \<and> docker_remove_container (docker_client S) n w = (False, w)
       \<and> stop_docker S db p w = (json False (Some Container_not_found) None 404, w)
       \<and> remove_docker S db p w = (json False (Some Container_not_found) None 404, w)
       \<and> project_docker_status S db p w =
           (json True None
              (Some (case DOCKER_STATUS w p of None \<Rightarrow> Stopped | Some st \<Rightarrow> st)) 200, w)
       \<and> build_and_start S None t w = (Inr (), set_status (t_pid t) Stopped w)
       \<and> DOCKER_STATUS (snd (build_and_start S None t w)) (t_pid t) = Some Stopped"
proof -
  have stop: "stop_docker S db p w = (json False (Some Container_not_found) None 404, w)"
    using assms by (simp add: stop_docker_def no_client_wrappers)
  have remove: "remove_docker S db p w = (json False (Some Container_not_found) None 404, w)"
    using assms by (simp add: remove_docker_def no_client_wrappers)
  have query: "project_docker_status S db p w =
           (json True None
              (Some (case DOCKER_STATUS w p of None \<Rightarrow> Stopped | Some st \<Rightarrow> st)) 200, w)"
    using assms
    by (simp add: project_docker_status_def reconcile_def no_client_wrappers split: option.split)
  have task: "build_and_start S None t w = (Inr (), set_status (t_pid t) Stopped w)"
    using assms(1) by (rule no_client_task)
  have final: "DOCKER_STATUS (snd (build_and_start S None t w)) (t_pid t) = Some Stopped"
    using task by (simp add: set_status_def)
  show ?thesis
    using assms(1) stop remove query task final
    by (simp add: no_client_wrappers no_client_build)
qed

theorem no_client_every_operation_fails_witness:
  "docker_client (sys_with None) = None
   \<and> get_project_by_pid demo_db ''p1'' = Some demo_project
   \<and> docker_container_exists (docker_client (sys_with None)) ''c1'' world0 = (False, world0)
   \<and> stop_docker (sys_with None) demo_db ''p1'' world0
       = (json False (Some Container_not_found) None 404, world0)
   \<and> remove_docker (sys_with None) demo_db ''p1'' world0
       = (json False (Some Container_not_found) None 404, world0)
   \<and> project_docker_status (sys_with None) demo_db ''p1'' world0
       = (json True None (Some Stopped) 200, world0)
   \<and> DOCKER_STATUS (snd (build_and_start (sys_with None) None demo_task world0)) ''p1''
       = Some Stopped"
proof -
  have c: "docker_client (sys_with None) = None"
    by (simp add: sys_with_def)
  have h: "get_project_by_pid demo_db ''p1'' = Some demo_project"
    by (simp add: get_project_by_pid_def demo_db_def)
  have p: "t_pid demo_task = ''p1''"
    by (simp add: demo_task_def)
  have e: "DOCKER_STATUS world0 ''p1'' = None"
    by (simp add: world0_def)
  show ?thesis
    using c h no_client_every_operation_fails [OF c h, where n = "''c1''" and w = world0
        and t = demo_task and i = None and path = None and hp = 0 and cp = 0 and cpu = 0
        and m = "[]" and ms = "[]" and pl = 0]
    by (simp add: p e set_status_def)
qed

section \<open>Failure outcomes of the wrappers\<close>

text \<open>
  When the lookup raises, whatever the exception, the five wrappers that begin with a
  lookup return their failure value; so do start, stop and remove when the method raises.
\<close>

lemma lookup_raises:
  assumes "isl (containers_get d (calls w) n)"
  shows "fst (docker_container_exists (Some d) n w) = False"
    and "fst (docker_container_status (Some d) n w) = ''stopped''"
    and "fst (docker_start_container (Some d) n w) = False"
    and "fst (docker_stop_container (Some d) n w) = False"
    and "fst (docker_remove_container (Some d) n w) = False"
  using assms
  by (auto simp: docker_container_exists_def docker_container_status_def
        docker_start_container_def docker_stop_container_def docker_remove_container_def
        split: sum.split)

lemma method_raises:
  assumes "containers_get d (calls w) n = Inr c"
  shows "isl (container_start d (calls w @ [Containers_get n]) c)
           \<Longrightarrow> fst (docker_start_container (Some d) n w) = False"
    and "isl (container_stop d (calls w @ [Containers_get n]) c)
           \<Longrightarrow> fst (docker_stop_container (Some d) n w) = False"
    and "isl (container_remove d (calls w @ [Containers_get n]) c)
           \<Longrightarrow> fst (docker_remove_container (Some d) n w) = False"
  using assms
  by (auto simp: docker_start_container_def docker_stop_container_def
        docker_remove_container_def invoke_def Let_def split: sum.split)

text \<open>
  What the remaining wrappers answer in terms of the daemon: only whether the call
  returned matters, and for the status also the raw status of the container found.
\<close>

lemma docker_image_exists_iff:
  "fst (docker_image_exists client i w) \<longleftrightarrow>
     (\<exists>d. client = Some d \<and> images_get d (calls w) i = Inr ())"
  by (auto simp: docker_image_exists_def split: option.split sum.split)

lemma docker_container_status_eq:
  "fst (docker_container_status client n w) =
     (if \<exists>d c. client = Some d \<and> containers_get d (calls w) n = Inr c
                \<and> container_status c = ''running''
      then ''running'' else ''stopped'')"
  by (auto simp: docker_container_status_def split: option.split sum.split)

lemma docker_build_image_iff:
  "fst (docker_build_image S i path w) \<longleftrightarrow>
     (\<exists>d. docker_client S = Some d
          \<and> images_build d (calls w)
               (case path of None \<Rightarrow> os_getcwd S
                | Some q \<Rightarrow> if q = [] then os_getcwd S else q) i = Inr ())"
  by (auto simp: docker_build_image_def Let_def split: option.split sum.split)

lemma docker_run_container_eq:
  "fst (docker_run_container client i n hp cp cpu m ms pl w) =
     (case client of
        None \<Rightarrow> []
      | Some d \<Rightarrow>
          (case containers_run d (calls w) i n hp cp cpu m ms pl of
             Inl e \<Rightarrow> []
           | Inr c \<Rightarrow> container_id c))"
  by (simp add: docker_run_container_def Let_def split: option.split sum.split)

text \<open>
  C9, as amended. Every operation of the runtime client returns one of two kinds of
  value, and which one depends only on whether its SDK calls returned, never on why they
  did not. Image-exists, build, container-exists, start, stop and remove return true
  exactly when there is a client handle and every SDK call they make returns, and false
  in every other case. Run returns the identifier of the container when its call
  returns, and the empty string in every other case. Status returns \<^verbatim>\<open>"running"\<close>
  exactly when the lookup returns a container whose raw status is \<^verbatim>\<open>"running"\<close>, and
  \<^verbatim>\<open>"stopped"\<close> in every other case, a container that was found and is not running
  included. So no client handle (the backend was unreachable), a resource not found and
  a failed operation all give the same value. The claim as it was stated, that the
  result tells not-found from operation-failed from backend-unreachable, fails: the
  counterexample gives the same answer for all of them.
\<close>

theorem wrappers_answer_by_success_alone:
  "(fst (docker_image_exists client i w) \<longleftrightarrow>
      (\<exists>d. client = Some d \<and> images_get d (calls w) i = Inr ()))
   \<and> (fst (docker_build_image S i path w) \<longleftrightarrow>
      (\<exists>d. docker_client S = Some d
           \<and> images_build d (calls w)
                (case path of None \<Rightarrow> os_getcwd S
                 | Some q \<Rightarrow> if q = [] then os_getcwd S else q) i = Inr ()))
   \<and> (fst (docker_container_exists client n w) \<longleftrightarrow>
      (\<exists>d c. client = Some d \<and> containers_get d (calls w) n = Inr c))
   \<and> fst (docker_container_status client n w) =
      (if \<exists>d c. client = Some d \<and> containers_get d (calls w) n = Inr c
                 \<and> container_status c = ''running''
       then ''running'' else ''stopped'')
   \<and> fst (docker_run_container client i n hp cp cpu m ms pl w) =
      (case client of
         None \<Rightarrow> []
       | Some d \<Rightarrow>
           (case containers_run d (calls w) i n hp cp cpu m ms pl of
              Inl e \<Rightarrow> []
            | Inr c \<Rightarrow> container_id c))
   \<and> (fst (docker_start_container client n w) \<longleftrightarrow>
      (\<exists>d c. client = Some d \<and> containers_get d (calls w) n = Inr c
             \<and> container_start d (calls w @ [Containers_get n]) c = Inr ()))
   \<and> (fst (docker_stop_container client n w) \<longleftrightarrow>
      (\<exists>d c. client = Some d \<and> containers_get d (calls w) n = Inr c
             \<and> container_stop d (calls w @ [Containers_get n]) c = Inr ()))
   \<and> (fst (docker_remove_container client n w) \<longleftrightarrow>
      (\<exists>d c. client = Some d \<and> containers_get d (calls w) n = Inr c
             \<and> container_remove d (calls w @ [Containers_get n]) c = Inr ()))"
  using docker_image_exists_iff [of client i w] docker_build_image_iff [of S i path w]
    docker_container_exists_iff [of client n w] docker_container_status_eq [of client n w]
    docker_run_container_eq [of client i n hp cp cpu m ms pl w]
    docker_start_container_iff [of client n w] docker_stop_container_iff [of client n w]
    docker_remove_container_iff [of client n w]
  by blast

theorem wrappers_answer_by_success_alone_witness:
  "fst (docker_container_exists (Some (settled_daemon ''exited'')) ''c1'' world0)
   \<and> fst (docker_stop_container (Some (settled_daemon ''exited'')) ''c1'' world0)
   \<and> fst (docker_container_status (Some (settled_daemon ''exited'')) ''c1'' world0) = ''stopped''
   \<and> fst (docker_container_status (Some (settled_daemon ''running'')) ''c1'' world0) = ''running''
   \<and> fst (docker_run_container (Some fresh_daemon) (Some ''img:v1'') ''c1'' 20001 8080 1
            ''1g'' ''1.5g'' 8 world0) = ''c0ffee''
   \<and> \<not> fst (docker_stop_container (Some (stubborn_daemon ''running'')) ''c1'' world0)
   \<and> \<not> fst (docker_stop_container (Some (raising NotFound)) ''c1'' world0)
   \<and> \<not> fst (docker_stop_container (Some (raising APIError)) ''c1'' world0)
   \<and> \<not> fst (docker_stop_container None ''c1'' world0)
   \<and> fst (docker_container_status (Some (raising NotFound)) ''c1'' world0) = ''stopped''
   \<and> fst (docker_container_status None ''c1'' world0) = ''stopped''"
proof -
  note t = wrappers_answer_by_success_alone [where w = world0 and n = "''c1''"
      and S = "sys_with None" and i = "Some ''img:v1''" and path = None and hp = 20001
      and cp = 8080 and cpu = 1 and m = "''1g''" and ms = "''1.5g''" and pl = 8]
  have a: "fst (docker_container_exists (Some (settled_daemon ''exited'')) ''c1'' world0)
      \<and> fst (docker_stop_container (Some (settled_daemon ''exited'')) ''c1'' world0)
      \<and> fst (docker_container_status (Some (settled_daemon ''exited'')) ''c1'' world0) = ''stopped''"
    using t [of "Some (settled_daemon ''exited'')"] by (simp add: settled_daemon_def)
  have b: "fst (docker_container_status (Some (settled_daemon ''running'')) ''c1'' world0) = ''running''"
    using t [of "Some (settled_daemon ''running'')"] by (simp add: settled_daemon_def)
  have c: "fst (docker_run_container (Some fresh_daemon) (Some ''img:v1'') ''c1'' 20001 8080 1
            ''1g'' ''1.5g'' 8 world0) = ''c0ffee''"
    using t [of "Some fresh_daemon"] by (simp add: fresh_daemon_def)
  have d: "\<not> fst (docker_stop_container (Some (stubborn_daemon ''running'')) ''c1'' world0)"
    using t [of "Some (stubborn_daemon ''running'')"] by (simp add: stubborn_daemon_def)
  have e: "\<not> fst (docker_stop_container (Some (raising NotFound)) ''c1'' world0)
      \<and> fst (docker_container_status (Some (raising NotFound)) ''c1'' world0) = ''stopped''"
    using t [of "Some (raising NotFound)"] by (simp add: raising_def)
  have f: "\<not> fst (docker_stop_container (Some (raising APIError)) ''c1'' world0)"
    using t [of "Some (raising APIError)"] by (simp add: raising_def)
  have g: "\<not> fst (docker_stop_container None ''c1'' world0)
      \<and> fst (docker_container_status None ''c1'' world0) = ''stopped''"
    using t [of None] by simp
  from a b c d e f g show ?thesis
    by blast
qed

theorem wrappers_tell_success_from_failure_only_counterexample:
  "fst (docker_start_container (Some (raising NotFound)) ''c1'' world0) = False
   \<and> fst (docker_start_container (Some (raising APIError)) ''c1'' world0) = False
   \<and> fst (docker_start_container (Some (raising OtherException)) ''c1'' world0) = False
   \<and> fst (docker_start_container None ''c1'' world0) = False
   \<and> fst (docker_container_exists (Some (raising NotFound)) ''c1'' world0) = False
   \<and> fst (docker_container_exists (Some (raising APIError)) ''c1'' world0) = False
   \<and> fst (docker_container_exists (Some (raising OtherException)) ''c1'' world0) = False
   \<and> fst (docker_container_exists None ''c1'' world0) = False"
  by (simp add: docker_start_container_def docker_container_exists_def raising_def)

section \<open>The background task when nothing raises\<close>



lemma create_or_start_normal:
  "create_or_start S None t w =
     (Inr (),
      if \<not> t_container_exists t then
        (case docker_run_container (docker_client S) (t_image_name t) (t_container_name t)
                (t_host_port t) (t_container_port t) (t_CPU_COUNT t) (t_MEM_LIMIT t)
                (t_MEMSWAP_LIMIT t) (t_PIDS_LIMIT t) w of
           (new_id, w') \<Rightarrow>
             set_status (t_pid t) (if new_id \<noteq> [] then Running else Stopped) w')
      else
        (case docker_start_container (docker_client S) (t_container_name t) w of
           (started, w') \<Rightarrow> set_status (t_pid t) (if started then Running else Stopped) w'))"
  by (simp add: create_or_start_def then_do_def stmt_def assign_def logger_def
        split: prod.split)

lemma try_block_normal:
  "try_block S None t w =
     (Inr (),
      if \<not> t_image_exists t then
        (case docker_build_image S (t_image_name t) (t_working_dir t)
                (set_status (t_pid t) Starting w) of
           (built, w') \<Rightarrow>
             if \<not> built then set_status (t_pid t) Stopped w'
             else snd (create_or_start S None t w'))
      else snd (create_or_start S None t (set_status (t_pid t) Starting w)))"
  by (simp add: try_block_def then_do_def stmt_def assign_def logger_def
        create_or_start_normal split: prod.split)

lemma finally_block_settled:
  "DOCKER_STATUS w p \<noteq> Some Starting \<Longrightarrow> finally_block p w = w"
  by (simp add: finally_block_def)

lemma create_or_start_settles:
  "DOCKER_STATUS (snd (create_or_start S None t w)) (t_pid t) \<noteq> Some Starting"
  by (simp add: create_or_start_normal set_status_def split: prod.split)

lemma try_block_settles:
  "DOCKER_STATUS (snd (try_block S None t w)) (t_pid t) \<noteq> Some Starting"
  using create_or_start_settles
  by (simp add: try_block_normal set_status_def split: prod.split)

lemma build_and_start_normal:
  "build_and_start S None t w = try_block S None t w"
  using try_block_settles [of S t w] finally_block_settled
  by (simp add: build_and_start_def split: prod.split) (simp add: try_block_normal)


lemma start_docker_writes_nothing:
  "DOCKER_STATUS (fst (snd (start_docker S cfg db p w))) = DOCKER_STATUS w"
  by (simp add: start_docker_def Let_def case_prod_beta store_container_exists
        store_image_exists split: option.split)

lemma demo_start:
  "docker_client (sys_with (Some d)) = Some d
   \<Longrightarrow> images_get d [] (Some ''img:v1'') = Inl e
   \<Longrightarrow> containers_get d [Images_get (Some ''img:v1'')] ''c1'' = Inl e'
   \<Longrightarrow> start_docker (sys_with (Some d)) demo_config demo_db ''p1'' world0 =
        (json True (Some Start_begun) (Some Starting) 202,
         \<lparr>DOCKER_STATUS = Map.empty,
          calls = [Images_get (Some ''img:v1''), Containers_get ''c1'']\<rparr>,
         Some demo_task)"
  by (simp add: start_docker_def get_project_by_pid_def demo_db_def demo_project_def
        demo_config_def demo_task_def world0_def parse_ports_def port_or_none_def
        py_truthy_def py_int_def configured_ports_def docker_image_exists_def
        docker_container_exists_def invoke_def Let_def)




text \<open>
  C3. The claim is that start writes \<open>starting\<close> before it launches the background task
  and before it returns, so that a later start request sees \<open>starting\<close> and at most one
  build and run sequence executes for a project. The handler writes nothing: the write is
  the first statement of the task. At the input below a second request is handled after
  the first has returned and before the first task has run. The store is still empty, the
  second request is accepted and hands out a second task, and the two tasks, once run,
  have each built the image and run the container.
\<close>

theorem second_start_before_first_task_runs:
  "start_docker (sys_with (Some fresh_daemon)) demo_config demo_db ''p1'' world0 =
        (json True (Some Start_begun) (Some Starting) 202,
         \<lparr>DOCKER_STATUS = Map.empty,
          calls = [Images_get (Some ''img:v1''), Containers_get ''c1'']\<rparr>,
         Some demo_task)
   \<and> start_docker (sys_with (Some fresh_daemon)) demo_config demo_db ''p1''
         \<lparr>DOCKER_STATUS = Map.empty,
          calls = [Images_get (Some ''img:v1''), Containers_get ''c1'']\<rparr> =
        (json True (Some Start_begun) (Some Starting) 202,
         \<lparr>DOCKER_STATUS = Map.empty,
          calls = [Images_get (Some ''img:v1''), Containers_get ''c1'',
                   Images_get (Some ''img:v1''), Containers_get ''c1'']\<rparr>,
         Some demo_task)
   \<and> snd (build_and_start (sys_with (Some fresh_daemon)) None demo_task
           (snd (build_and_start (sys_with (Some fresh_daemon)) None demo_task
              \<lparr>DOCKER_STATUS = Map.empty,
               calls = [Images_get (Some ''img:v1''), Containers_get ''c1'',
                        Images_get (Some ''img:v1''), Containers_get ''c1'']\<rparr>))) =
         \<lparr>DOCKER_STATUS = [''p1'' \<mapsto> Running],
          calls = [Images_get (Some ''img:v1''), Containers_get ''c1'',
                   Images_get (Some ''img:v1''), Containers_get ''c1'',
                   Images_build ''/srv/uniweb'' (Some ''img:v1''),
                   Containers_run (Some ''img:v1'') ''c1'' 20001 8080 1 ''1g'' ''1.5g'' 8,
                   Images_build ''/srv/uniweb'' (Some ''img:v1''),
                   Containers_run (Some ''img:v1'') ''c1'' 20001 8080 1 ''1g'' ''1.5g'' 8]\<rparr>"
proof -
  have first: "start_docker (sys_with (Some fresh_daemon)) demo_config demo_db ''p1'' world0 =
        (json True (Some Start_begun) (Some Starting) 202,
         \<lparr>DOCKER_STATUS = Map.empty,
          calls = [Images_get (Some ''img:v1''), Containers_get ''c1'']\<rparr>,
         Some demo_task)"
    by (rule demo_start [where e = ImageNotFound and e' = NotFound])
       (simp_all add: sys_with_def fresh_daemon_def)
  have second: "start_docker (sys_with (Some fresh_daemon)) demo_config demo_db ''p1''
         \<lparr>DOCKER_STATUS = Map.empty,
          calls = [Images_get (Some ''img:v1''), Containers_get ''c1'']\<rparr> =
        (json True (Some Start_begun) (Some Starting) 202,
         \<lparr>DOCKER_STATUS = Map.empty,
          calls = [Images_get (Some ''img:v1''), Containers_get ''c1'',
                   Images_get (Some ''img:v1''), Containers_get ''c1'']\<rparr>,
         Some demo_task)"
    by (simp add: start_docker_def get_project_by_pid_def demo_db_def demo_project_def
        demo_config_def demo_task_def parse_ports_def port_or_none_def
        py_truthy_def py_int_def configured_ports_def docker_image_exists_def
        docker_container_exists_def invoke_def Let_def sys_with_def fresh_daemon_def)
  have run: "snd (build_and_start (sys_with (Some fresh_daemon)) None demo_task
                \<lparr>DOCKER_STATUS = m, calls = cs\<rparr>) =
         \<lparr>DOCKER_STATUS = m(''p1'' \<mapsto> Running),
          calls = cs @ [Images_build ''/srv/uniweb'' (Some ''img:v1''),
                   Containers_run (Some ''img:v1'') ''c1'' 20001 8080 1 ''1g'' ''1.5g'' 8]\<rparr>"
    for m cs
    by (simp add: build_and_start_normal try_block_normal create_or_start_normal
          demo_task_def sys_with_def fresh_daemon_def docker_build_image_def
          docker_run_container_def set_status_def invoke_def Let_def)
  from first second show ?thesis
    by (simp add: run)
qed

end
